theory Spec2Isabelle
  imports Complex_Main
begin

section \<open>Asynchronous calls, their outcomes and their effects\<close>

text \<open>
  The program is a Node script that drives a remote browser through an automation driver.
  Every call of the driver (and of the session API, the file system, the clock and the
  random number generator) is an input of the model: what the outside world answers at
  that call site.  A call that is awaited either yields a value or throws; a thrown value
  is an \<open>error\<close>, and the result of an awaited computation is \<open>error + 'a\<close>
  (\<open>Inl\<close> the error) together with the list of effects it performed, in order.
\<close>

datatype error = TimeoutError string | OtherError string

text \<open>The text a template literal gives for a caught error: its name, a colon, its message.\<close>

fun error_text :: "error \<Rightarrow> string" where
  "error_text (TimeoutError m) = ''TimeoutError: '' @ m"
| "error_text (OtherError m) = ''Error: '' @ m"

text \<open>The \<open>message\<close> property of a caught error.\<close>

fun error_message :: "error \<Rightarrow> string" where
  "error_message (TimeoutError m) = m"
| "error_message (OtherError m) = m"

text \<open>The calls the program makes on its collaborators.\<close>

datatype op =
    SessionsCreate
  | PuppeteerConnect
  | BrowserPages
  | BrowserNewPage
  | BrowserClose
  | PageSetViewport
  | PageGoto string
  | BeforeLogin
  | PageWaitForSelector string nat
  | PageType string string
  | PageScreenshot string
  | PageWaitForNavigation
  | PageWaitForFunction
  | PageClick string
  | PageQuery string
  | PageEvaluate
  | PageTitle
  | PageUrl
  | PageGoBack
  | KeyboardPress string
  | HandleClick
  | ExistsSync string
  | MkDir string

text \<open>
  Observable effects: a line on the console (\<open>console.log\<close>, \<open>console.error\<close>),
  a call issued to a collaborator, an image file stored at a path (a screenshot call that
  succeeded), and a timer of so many milliseconds.  The console texts are given without
  the pictographs and line breaks that open some of them; an error passed to the console
  as a second argument is given by its text.
\<close>

datatype event =
    Log string
  | LogError string
  | Call op
  | Written string
  | Sleep int

type_synonym 'a io = "(error + 'a) \<times> event list"

definition ok :: "'a \<Rightarrow> 'a io" where
  "ok x = (Inr x, [])"

definition throw :: "error \<Rightarrow> 'a io" where
  "throw e = (Inl e, [])"

definition log :: "string \<Rightarrow> unit io" where
  "log m = (Inr (), [Log m])"

definition log_error :: "string \<Rightarrow> unit io" where
  "log_error m = (Inr (), [LogError m])"

text \<open>An awaited call of a collaborator: the call is issued, the world answers \<open>r\<close>.\<close>

definition call :: "op \<Rightarrow> error + 'a \<Rightarrow> 'a io" where
  "call f r = (r, [Call f])"

text \<open>\<open>const x = await m; ...\<close>: the rest runs only when \<open>m\<close> did not throw.\<close>

definition await_then :: "'a io \<Rightarrow> ('a \<Rightarrow> 'b io) \<Rightarrow> 'b io" where
  "await_then m f =
     (case fst m of
        Inl e \<Rightarrow> (Inl e, snd m)
      | Inr x \<Rightarrow> (fst (f x), snd m @ snd (f x)))"

text \<open>A block of statements that yield no value, run in order up to the first that throws.\<close>

fun steps :: "unit io list \<Rightarrow> unit io" where
  "steps [] = ok ()"
| "steps (m # ms) = await_then m (\<lambda>_. steps ms)"

text \<open>\<open>try { m } catch (error) { h error }\<close>.\<close>

definition try_catch :: "'a io \<Rightarrow> (error \<Rightarrow> 'a io) \<Rightarrow> 'a io" where
  "try_catch m h =
     (case fst m of
        Inl e \<Rightarrow> (fst (h e), snd m @ snd (h e))
      | Inr x \<Rightarrow> m)"

text \<open>
  \<open>try { m } finally { f }\<close>: \<open>f\<close> runs whatever \<open>m\<close> did; when \<open>f\<close> throws, its
  error replaces the completion of \<open>m\<close>, otherwise the completion of \<open>m\<close> stands.
\<close>

definition try_finally :: "'a io \<Rightarrow> unit io \<Rightarrow> 'a io" where
  "try_finally m f =
     (case fst f of
        Inl e \<Rightarrow> (Inl e, snd m @ snd f)
      | Inr _ \<Rightarrow> (fst m, snd m @ snd f))"

text \<open>\<open>p.catch(() => { h })\<close>: a rejection of \<open>p\<close> is replaced by the handler's run.\<close>

definition promise_catch :: "unit io \<Rightarrow> unit io \<Rightarrow> unit io" where
  "promise_catch p h = try_catch p (\<lambda>_. h)"

text \<open>
  \<open>await Promise.all([p, q])\<close>: both calls are issued before either is awaited, and the
  await throws when one of them rejects.  When both reject, the source surfaces whichever
  rejected first in time; the model takes the one written first.
\<close>

definition promise_all2 :: "unit io \<Rightarrow> unit io \<Rightarrow> unit io" where
  "promise_all2 p q =
     (case fst p of
        Inl e \<Rightarrow> (Inl e, snd p @ snd q)
      | Inr _ \<Rightarrow> (fst q, snd p @ snd q))"

section \<open>Strings and paths\<close>

text \<open>
  \<open>toLowerCase\<close> on the ASCII letters; other bytes are left as they are.
\<close>

definition lower_char :: "char \<Rightarrow> char" where
  "lower_char c =
     (case map_of (zip ''ABCDEFGHIJKLMNOPQRSTUVWXYZ'' ''abcdefghijklmnopqrstuvwxyz'') c of
        Some l \<Rightarrow> l
      | None \<Rightarrow> c)"

definition toLowerCase :: "string \<Rightarrow> string" where
  "toLowerCase s = map lower_char s"

text \<open>
  \<open>path.join(dir, file)\<close> for two segments that need no normalisation, as with every
  directory and file name the program builds.
\<close>

definition path_join :: "string \<Rightarrow> string \<Rightarrow> string" where
  "path_join dir file = dir @ ''/'' @ file"

text \<open>Decimal text of a number, as a template literal prints it.\<close>

definition digit_char :: "nat \<Rightarrow> char" where
  "digit_char d = ''0123456789'' ! d"

fun show_nat :: "nat \<Rightarrow> string" where
  "show_nat n =
     (if n < 10 then [digit_char n]
      else show_nat (n div 10) @ [digit_char (n mod 10)])"

declare show_nat.simps [simp del]

definition show_int :: "int \<Rightarrow> string" where
  "show_int i = (if i < 0 then ''-'' @ show_nat (nat (- i)) else show_nat (nat i))"

section \<open>Human pacing: \<open>randomWait\<close>\<close>

text \<open>
  \<^verbatim>\<open>const waitTime = Math.floor(Math.random() * (max - min) + min);\<close>
  The arguments are JavaScript numbers, taken here as reals; \<open>r\<close> is the value that
  \<open>Math.random()\<close> returned, a number with \<open>0 \<le> r < 1\<close>.
\<close>

definition waitTime :: "real \<Rightarrow> real \<Rightarrow> real \<Rightarrow> int" where
  "waitTime min_ms max_ms r = \<lfloor>r * (max_ms - min_ms) + min_ms\<rfloor>"

definition randomWait :: "real \<Rightarrow> real \<Rightarrow> real \<Rightarrow> unit io" where
  "randomWait min_ms max_ms r =
     (Inr (),
      [Log (''Waiting for '' @ show_int (waitTime min_ms max_ms r) @ ''ms...''),
       Sleep (waitTime min_ms max_ms r)])"

section \<open>Waiting for a selector, and racing two waits\<close>

text \<open>
  What the page does with a selector after a wait for it has started: the element appears
  after so many milliseconds, it never appears, or the driver's call breaks after so many
  milliseconds with an error that is not a timeout (the page was closed, the frame was
  detached).
\<close>

datatype signal = Appears nat | Never | Breaks nat error

text \<open>
  The moment a promise settles, seen from the instant the race is set up: it is settled
  already (\<open>Promise.resolve(v)\<close>), or it settles after so many milliseconds.  A promise
  of the driver is never settled at the instant it is created.
\<close>

datatype settles = Already | After nat

fun earlier :: "settles \<Rightarrow> settles \<Rightarrow> bool" where
  "earlier Already Already = False"
| "earlier Already (After b) = True"
| "earlier (After a) Already = False"
| "earlier (After a) (After b) = (a < b)"

type_synonym 'a promise = "settles \<times> 'a io"

definition timeout_error :: "string \<Rightarrow> nat \<Rightarrow> error" where
  "timeout_error sel ms =
     TimeoutError (''Waiting for selector '' @ sel @ '' failed: '' @ show_nat ms @ ''ms exceeded'')"

text \<open>
  \<open>page.waitForSelector(sel, { timeout })\<close> of the automation driver: the promise
  resolves when the element appears before the timeout, and rejects with a
  \<open>TimeoutError\<close> when the timeout elapses first.
\<close>

definition waitForSelector :: "string \<Rightarrow> nat \<Rightarrow> signal \<Rightarrow> unit promise" where
  "waitForSelector sel ms s =
     (case s of
        Appears t \<Rightarrow>
          if t < ms then (After t, call (PageWaitForSelector sel ms) (Inr ()))
          else (After ms, call (PageWaitForSelector sel ms) (Inl (timeout_error sel ms)))
      | Never \<Rightarrow> (After ms, call (PageWaitForSelector sel ms) (Inl (timeout_error sel ms)))
      | Breaks t e \<Rightarrow>
          if t < ms then (After t, call (PageWaitForSelector sel ms) (Inl e))
          else (After ms, call (PageWaitForSelector sel ms) (Inl (timeout_error sel ms))))"

text \<open>The driver's default timeout, used where the call gives none.\<close>

definition default_timeout :: nat where
  "default_timeout = 30000"

text \<open>\<open>p.then(() => v)\<close>.\<close>

definition promise_then :: "'a promise \<Rightarrow> 'b \<Rightarrow> 'b promise" where
  "promise_then p v =
     (fst p, (case fst (snd p) of Inl e \<Rightarrow> Inl e | Inr _ \<Rightarrow> Inr v, snd (snd p)))"

text \<open>\<open>Promise.resolve(v)\<close>.\<close>

definition promise_resolve :: "'a \<Rightarrow> 'a promise" where
  "promise_resolve v = (Already, ok v)"

text \<open>
  \<open>Promise.race([p, q])\<close>: both operands have been started; the race settles as the
  operand that settles first, and the other one's settlement is dropped.  When both settle
  at the same instant the reaction registered first, that of \<open>p\<close>, runs first.
\<close>

definition promise_race2 :: "'a promise \<Rightarrow> 'a promise \<Rightarrow> 'a promise" where
  "promise_race2 p q =
     (if earlier (fst q) (fst p)
      then (fst q, (fst (snd q), snd (snd p) @ snd (snd q)))
      else (fst p, (fst (snd p), snd (snd p) @ snd (snd q))))"

definition await :: "'a promise \<Rightarrow> 'a io" where
  "await p = snd p"

section \<open>Login verification: \<open>testLogin\<close> and its \<open>main\<close>\<close>

record LoginSite =
  name :: string
  url :: string
  usernameSelector :: string
  passwordSelector :: string
  submitSelector :: string
  successIndicator :: string
  failureIndicator :: "string option"
  username :: string
  password :: string
  beforeLogin :: "(error + unit) option"

text \<open>
  \<open>beforeLogin\<close> is an optional callback on the page; it is represented by what
  running it comes to.  \<open>username\<close> and \<open>password\<close> are the two fields of
  \<open>credentials\<close>.
\<close>

record VerificationResult =
  site :: string
  success :: bool
  message :: string
  screenshotPath :: string

text \<open>
  What the outside world does during one run of \<open>testLogin\<close>, call site by call site.
  \<open>sessions_create\<close> answers with the session's id; \<open>browser_pages\<close> tells whether
  the browser has a first page already; \<open>query_success\<close> tells whether \<open>page.$\<close> of
  the success indicator finds an element.
\<close>

record login_env =
  sessions_create :: "error + string"
  puppeteer_connect :: "error + unit"
  browser_pages :: "error + bool"
  browser_newPage :: "error + unit"
  page_setViewport :: "error + unit"
  page_goto :: "error + unit"
  wait_username :: signal
  type_username :: "error + unit"
  wait_password :: signal
  type_password :: "error + unit"
  shot_before_submit :: "error + unit"
  wait_navigation :: "error + unit"
  click_submit :: "error + unit"
  wait_success :: signal
  wait_failure :: signal
  query_success :: "error + bool"
  shot_final :: "error + unit"
  shot_error :: "error + unit"
  browser_close :: "error + unit"

text \<open>\<open>await page.screenshot({ path })\<close>: the file is stored when the call succeeds.\<close>

definition screenshot :: "string \<Rightarrow> error + unit \<Rightarrow> unit io" where
  "screenshot p r =
     (case r of
        Inl e \<Rightarrow> (Inl e, [Call (PageScreenshot p)])
      | Inr _ \<Rightarrow> (Inr (), [Call (PageScreenshot p), Written p]))"

text \<open>\<open>path.join(process.cwd(), 'screenshots')\<close>.\<close>

definition screenshotsDir :: "string \<Rightarrow> string" where
  "screenshotsDir cwd = path_join cwd ''screenshots''"

definition screenshotPath_of :: "string \<Rightarrow> LoginSite \<Rightarrow> string" where
  "screenshotPath_of cwd s = path_join (screenshotsDir cwd) (toLowerCase (name s) @ ''.png'')"

definition before_submit_path :: "string \<Rightarrow> LoginSite \<Rightarrow> string" where
  "before_submit_path cwd s =
     path_join (screenshotsDir cwd) (toLowerCase (name s) @ ''-before-submit.png'')"

text \<open>
  The result-checking phase of \<open>testLogin\<close> (the inner \<open>try\<close>): the race of the two
  waits, the existence check when the race yields \<open>null\<close>, and the inner \<open>catch\<close>.
  The value is the pair of \<open>success\<close> and \<open>message\<close>.
\<close>

definition login_race :: "LoginSite \<Rightarrow> login_env \<Rightarrow> (bool \<times> string) option promise" where
  "login_race s env =
     promise_race2
       (promise_then (waitForSelector (successIndicator s) 10000 (wait_success env))
          (Some (True, ''Login successful'')))
       (case failureIndicator s of
          Some f \<Rightarrow>
            promise_then (waitForSelector f 10000 (wait_failure env))
              (Some (False, ''Login failed - error message detected''))
        | None \<Rightarrow> promise_resolve None)"

definition checkLoginResult :: "LoginSite \<Rightarrow> login_env \<Rightarrow> (bool \<times> string) io" where
  "checkLoginResult s env =
     try_catch
       (await_then (await (login_race s env)) (\<lambda>result.
          case result of
            Some (suc, msg) \<Rightarrow> ok (suc, msg)
          | None \<Rightarrow>
              await_then (call (PageQuery (successIndicator s)) (query_success env))
                (\<lambda>successExists.
                   ok (successExists,
                       if successExists then ''Login appears successful''
                       else ''Login status unclear - could not find success indicator''))))
       (\<lambda>error. ok (False, ''Error checking login status: '' @ error_text error))"

text \<open>
  The submit: the wait for the navigation, with its rejection swallowed, and the click,
  awaited together.
\<close>

definition submitForm :: "LoginSite \<Rightarrow> login_env \<Rightarrow> unit io" where
  "submitForm s env =
     promise_all2
       (promise_catch (call PageWaitForNavigation (wait_navigation env)) (ok ()))
       (call (PageClick (submitSelector s)) (click_submit env))"

text \<open>The body of the outer \<open>try\<close>, up to the result-checking phase and from it on.\<close>

definition fillAndSubmit :: "string \<Rightarrow> LoginSite \<Rightarrow> login_env \<Rightarrow> unit io" where
  "fillAndSubmit cwd s env =
     steps
       [log (''Navigating to '' @ url s @ ''...''),
        call (PageGoto (url s)) (page_goto env),
        (case beforeLogin s of
           Some r \<Rightarrow> steps [log ''Executing pre-login steps...'', call BeforeLogin r]
         | None \<Rightarrow> ok ()),
        log ''Filling in login form...'',
        await (waitForSelector (usernameSelector s) default_timeout (wait_username env)),
        call (PageType (usernameSelector s) (username s)) (type_username env),
        await (waitForSelector (passwordSelector s) default_timeout (wait_password env)),
        call (PageType (passwordSelector s) (password s)) (type_password env),
        screenshot (before_submit_path cwd s) (shot_before_submit env),
        log ''Submitting login form...'',
        submitForm s env,
        log ''Checking login result...'']"

definition loginAttempt :: "string \<Rightarrow> LoginSite \<Rightarrow> login_env \<Rightarrow> VerificationResult io" where
  "loginAttempt cwd s env =
     await_then (fillAndSubmit cwd s env) (\<lambda>_.
     await_then (checkLoginResult s env) (\<lambda>(suc, msg).
     await_then
       (steps
          [screenshot (screenshotPath_of cwd s) (shot_final env),
           log (''Login test for '' @ name s @ '': '' @ (if suc then ''PASSED'' else ''FAILED'')
                @ '' - '' @ msg)])
       (\<lambda>_. ok \<lparr>site = name s, success = suc, message = msg,
                 screenshotPath = screenshotPath_of cwd s\<rparr>)))"

text \<open>The outer \<open>catch\<close>.\<close>

definition loginFailed :: "string \<Rightarrow> LoginSite \<Rightarrow> login_env \<Rightarrow> error \<Rightarrow> VerificationResult io" where
  "loginFailed cwd s env error =
     await_then
       (steps
          [log_error (''Error testing login: '' @ error_text error),
           try_catch (screenshot (screenshotPath_of cwd s) (shot_error env))
             (\<lambda>err. log_error ''Failed to take error screenshot'')])
       (\<lambda>_. ok \<lparr>site = name s, success = False,
                 message = ''Error testing login: '' @ error_text error,
                 screenshotPath = screenshotPath_of cwd s\<rparr>)"

text \<open>The \<open>finally\<close> block.\<close>

definition closeBrowser :: "login_env \<Rightarrow> unit io" where
  "closeBrowser env = steps [call BrowserClose (browser_close env), log ''Browser closed'']"

text \<open>\<open>const page = pages[0] || await browser.newPage();\<close>\<close>

definition firstPage :: "error + bool \<Rightarrow> error + unit \<Rightarrow> unit io" where
  "firstPage pages newPage =
     await_then (call BrowserPages pages) (\<lambda>has_first.
       if has_first then ok () else call BrowserNewPage newPage)"

text \<open>
  The statements of \<open>testLogin\<close> before its \<open>try\<close>: the session is created, the
  browser connected, the page obtained and the viewport set.
\<close>

definition openSession :: "LoginSite \<Rightarrow> login_env \<Rightarrow> unit io" where
  "openSession s env =
     await_then (log (''Testing login for '' @ name s @ ''...'')) (\<lambda>_.
     await_then (call SessionsCreate (sessions_create env)) (\<lambda>session_id.
     steps
       [log (''Session created: '' @ session_id),
        call PuppeteerConnect (puppeteer_connect env),
        log ''Connected to browser'',
        log (''Live View Link: https://www.browserbase.com/sessions/'' @ session_id),
        log ''Open this URL to view the session in real-time in Browserbase dashboard'',
        firstPage (browser_pages env) (browser_newPage env),
        call PageSetViewport (page_setViewport env)]))"

text \<open>\<open>testLogin\<close>: the statements above, then \<open>try\<close>, \<open>catch\<close> and \<open>finally\<close>.\<close>

definition testLogin :: "string \<Rightarrow> LoginSite \<Rightarrow> login_env \<Rightarrow> VerificationResult io" where
  "testLogin cwd s env =
     await_then (openSession s env) (\<lambda>_.
       try_finally
         (try_catch (loginAttempt cwd s env) (loginFailed cwd s env))
         (closeBrowser env))"



definition orangeHRM :: LoginSite where
  "orangeHRM =
     \<lparr>name = ''OrangeHRM'',
      url = ''https://opensource-demo.orangehrmlive.com/web/index.php/auth/login'',
      usernameSelector = ''input[name=\"username\"]'',
      passwordSelector = ''input[name=\"password\"]'',
      submitSelector = ''button[type=\"submit\"]'',
      successIndicator = ''.oxd-userdropdown'',
      failureIndicator = None,
      username = ''Admin'',
      password = ''admin123'',
      beforeLogin = None\<rparr>"


section \<open>The stealth test: \<open>utils\<close>, \<open>testGoogleSearch\<close> and its \<open>main\<close>\<close>

text \<open>
  What the world does during one call of \<open>takeScreenshot\<close>: whether the directory
  exists, what creating it comes to, the text \<open>new Date().toISOString()\<close> returns, and
  what the driver's screenshot call comes to.
\<close>

record shot_env =
  dir_exists :: bool
  mkdir :: "error + unit"
  now_iso :: string
  shot :: "error + unit"

definition isAbsolute :: "string \<Rightarrow> bool" where
  "isAbsolute p = (case p of [] \<Rightarrow> False | c # _ \<Rightarrow> c = CHR ''/'')"

definition ensureDirectoryExists :: "string \<Rightarrow> string \<Rightarrow> shot_env \<Rightarrow> unit io" where
  "ensureDirectoryExists cwd dirPath w =
     (let fullPath = (if isAbsolute dirPath then dirPath else path_join cwd dirPath) in
      await_then (call (ExistsSync fullPath) (Inr (dir_exists w))) (\<lambda>there.
        if \<not> there
        then steps [call (MkDir fullPath) (mkdir w), log (''Created directory: '' @ fullPath)]
        else ok ()))"

text \<open>\<open>.replace(/[:.]/g, '-')\<close>.\<close>

definition dash_char :: "char \<Rightarrow> char" where
  "dash_char c = (if c = CHR '':'' \<or> c = CHR ''.'' then CHR ''-'' else c)"

definition timestamp_of :: "string \<Rightarrow> string" where
  "timestamp_of stamp = map dash_char stamp"

definition shot_filePath :: "string \<Rightarrow> string \<Rightarrow> string \<Rightarrow> string" where
  "shot_filePath dir nm stamp = path_join dir (nm @ ''-'' @ timestamp_of stamp @ ''.png'')"

definition takeScreenshot :: "string \<Rightarrow> string \<Rightarrow> string \<Rightarrow> shot_env \<Rightarrow> string io" where
  "takeScreenshot cwd nm dir w =
     await_then (ensureDirectoryExists cwd dir w) (\<lambda>_.
     await_then (screenshot (shot_filePath dir nm (now_iso w)) (shot w)) (\<lambda>_.
     await_then (log (''Screenshot saved to: '' @ shot_filePath dir nm (now_iso w))) (\<lambda>_.
     ok (shot_filePath dir nm (now_iso w)))))"

text \<open>
  \<open>createBrowser\<close>: the session is created and the driver connected to it.  The options
  only select flags of the request.
\<close>

definition createBrowser :: "error + string \<Rightarrow> error + unit \<Rightarrow> unit io" where
  "createBrowser session browser =
     await_then (log ''Creating Browserbase session...'') (\<lambda>_.
     await_then (call SessionsCreate session) (\<lambda>session_id.
     steps
       [log (''Session created: '' @ session_id),
        log (''Live View Link: https://www.browserbase.com/sessions/'' @ session_id),
        log ''Open this URL to view the session in real-time in Browserbase dashboard'',
        call PuppeteerConnect browser,
        log ''Connected to browser'']))"

text \<open>What the world does during one run of \<open>testGoogleSearch\<close>, call site by call site.\<close>

record google_env =
  g_goto :: "error + unit"
  g_has_textarea :: "error + bool"
  g_has_input :: "error + bool"
  g_clear :: "error + unit"
  g_type :: "error + unit"
  g_rand1 :: real
  g_shot_query :: shot_env
  g_press :: "error + unit"
  g_wait_navigation :: "error + unit"
  g_wait_ready :: "error + unit"
  g_rand2 :: real
  g_shot_results :: shot_env
  g_h3 :: "error + string option list"
  g_has_link :: "error + bool"
  g_result_navigation :: "error + unit"
  g_result_click :: "error + unit"
  g_rand3 :: real
  g_title :: "error + string"
  g_url :: string
  g_shot_page :: shot_env
  g_scroll1 :: "error + unit"
  g_rand4 :: real
  g_scroll2 :: "error + unit"
  g_rand5 :: real
  g_goBack :: "error + unit"
  g_rand6 :: real
  g_shot_error :: shot_env

text \<open>
  \<open>searchResults.forEach((title, index) => { if (title) console.log(...) })\<close>: a title
  that is \<open>null\<close> or empty prints nothing.
\<close>

fun logTitles :: "nat \<Rightarrow> string option list \<Rightarrow> unit io" where
  "logTitles i [] = ok ()"
| "logTitles i (t # ts) =
     await_then
       (case t of
          None \<Rightarrow> ok ()
        | Some title \<Rightarrow>
            if title = [] then ok () else log (show_nat (i + 1) @ ''. '' @ title))
       (\<lambda>_. logTitles (i + 1) ts)"

definition findSearchInput :: "google_env \<Rightarrow> string io" where
  "findSearchInput g =
     await_then (call (PageQuery ''textarea[name=\"q\"]'') (g_has_textarea g)) (\<lambda>has_textarea.
       if has_textarea then ok ''textarea[name=\"q\"]''
       else
         await_then (call (PageQuery ''input[name=\"q\"]'') (g_has_input g)) (\<lambda>has_input.
           if has_input then ok ''input[name=\"q\"]''
           else throw (OtherError ''Could not find Google search input'')))"

definition searchQuery :: string where
  "searchQuery = ''puppeteer stealth browser automation''"

definition openFirstResult :: "string \<Rightarrow> google_env \<Rightarrow> unit io" where
  "openFirstResult cwd g =
     await_then
       (steps
          [promise_all2 (call PageWaitForNavigation (g_result_navigation g))
             (call HandleClick (g_result_click g)),
           randomWait 3000 5000 (g_rand3 g)])
       (\<lambda>_.
     await_then (call PageTitle (g_title g)) (\<lambda>pageTitle.
     steps
       [log (''Landed on page: \"'' @ pageTitle @ ''\"''),
        log (''URL: '' @ g_url g),
        await_then (takeScreenshot cwd ''google-search-result-page'' ''screenshots''
                      (g_shot_page g)) (\<lambda>_. ok ()),
        log ''Scrolling down page...'',
        call PageEvaluate (g_scroll1 g),
        randomWait 1000 2000 (g_rand4 g),
        call PageEvaluate (g_scroll2 g),
        randomWait 3000 5000 (g_rand5 g),
        log ''Going back to search results...'',
        call PageGoBack (g_goBack g),
        randomWait 2000 3000 (g_rand6 g)]))"

text \<open>
  Submitting the query: the key press is awaited, then the wait for the navigation is
  started; its rejection is answered with a console line.
\<close>

definition submitSearch :: "google_env \<Rightarrow> unit io" where
  "submitSearch g =
     steps
       [log ''Pressing Enter to search...'',
        call (KeyboardPress ''Enter'') (g_press g),
        log ''Waiting for search results...'',
        promise_catch (call PageWaitForNavigation (g_wait_navigation g))
          (log ''Navigation timeout - continuing anyway'')]"

text \<open>The body of the \<open>try\<close> of \<open>testGoogleSearch\<close>.\<close>

definition googleSearch :: "string \<Rightarrow> google_env \<Rightarrow> unit io" where
  "googleSearch cwd g =
     await_then
       (steps
          [call (PageGoto ''https://www.google.com'') (g_goto g),
           log (''Performing search for: \"'' @ searchQuery @ ''\"'')])
       (\<lambda>_.
     await_then (findSearchInput g) (\<lambda>searchInput.
     await_then
       (steps
          [call PageEvaluate (g_clear g),
           call (PageType searchInput searchQuery) (g_type g),
           randomWait 800 1500 (g_rand1 g),
           await_then (takeScreenshot cwd ''google-search-query'' ''screenshots''
                         (g_shot_query g)) (\<lambda>_. ok ()),
           submitSearch g,
           call PageWaitForFunction (g_wait_ready g),
           randomWait 2000 3000 (g_rand2 g),
           await_then (takeScreenshot cwd ''google-search-results'' ''screenshots''
                         (g_shot_results g)) (\<lambda>_. ok ()),
           log ''Top search results:''])
       (\<lambda>_.
     await_then (call PageEvaluate (g_h3 g)) (\<lambda>h3.
     await_then (logTitles 0 (take 5 h3)) (\<lambda>_.
     await_then (log ''Clicking on first search result...'') (\<lambda>_.
     await_then (call (PageQuery ''#search a'') (g_has_link g)) (\<lambda>resultLink.
     await_then
       (if resultLink then openFirstResult cwd g
        else log ''No search result link found to click'')
       (\<lambda>_. log ''Google search test completed''))))))))"

text \<open>
  \<open>testGoogleSearch\<close>: the \<open>catch\<close> writes the error's message to the console and
  then calls \<open>takeScreenshot\<close>.
\<close>

definition testGoogleSearch :: "string \<Rightarrow> google_env \<Rightarrow> unit io" where
  "testGoogleSearch cwd g =
     await_then (log ''Starting detailed Google search test...'') (\<lambda>_.
     try_catch (googleSearch cwd g)
       (\<lambda>error.
          await_then (log_error (''Google search test failed: '' @ error_message error)) (\<lambda>_.
          await_then (takeScreenshot cwd ''google-search-error'' ''screenshots''
                        (g_shot_error g)) (\<lambda>_. ok ()))))"

record test_site =
  t_name :: string
  t_url :: string
  t_description :: string

definition testSites :: "test_site list" where
  "testSites =
     [\<lparr>t_name = ''SannySoft Bot Detection'', t_url = ''https://bot.sannysoft.com'',
       t_description = ''Basic fingerprinting tests''\<rparr>,
      \<lparr>t_name = ''NowSecure'', t_url = ''https://nowsecure.nl'',
       t_description = ''Advanced bot detection tests''\<rparr>]"

text \<open>What the world does while one test site is visited.\<close>

record visit_env =
  v_goto :: "error + unit"
  v_rand1 :: real
  v_shot :: shot_env
  v_title :: "error + string"
  v_url :: string
  v_rand2 :: real

text \<open>\<open>.replace(/\s+/g, '-')\<close>: every run of white space becomes one dash.\<close>

definition is_space :: "char \<Rightarrow> bool" where
  "is_space c = (c = CHR '' '' \<or> (9 \<le> (of_char c :: nat) \<and> (of_char c :: nat) \<le> 13))"

fun dash_spaces :: "bool \<Rightarrow> string \<Rightarrow> string" where
  "dash_spaces in_run [] = []"
| "dash_spaces in_run (c # cs) =
     (if is_space c
      then (if in_run then dash_spaces True cs else CHR ''-'' # dash_spaces True cs)
      else c # dash_spaces False cs)"

fun indexOf :: "'a list \<Rightarrow> 'a \<Rightarrow> int" where
  "indexOf [] x = - 1"
| "indexOf (y # ys) x =
     (if y = x then 0 else (if indexOf ys x < 0 then - 1 else indexOf ys x + 1))"

definition visitSite :: "string \<Rightarrow> test_site list \<Rightarrow> test_site \<times> visit_env \<Rightarrow> unit io" where
  "visitSite cwd sites t =
     (let ts = fst t; v = snd t in
      await_then
        (steps
           [log (''Testing: '' @ t_name ts @ '' ('' @ t_url ts @ '')''),
            log (''Description: '' @ t_description ts),
            log (''Navigating to '' @ t_url ts @ ''...''),
            call (PageGoto (t_url ts)) (v_goto v),
            randomWait 2000 4000 (v_rand1 v),
            await_then (takeScreenshot cwd (dash_spaces False (toLowerCase (t_name ts)))
                          ''screenshots'' (v_shot v)) (\<lambda>_. ok ())])
        (\<lambda>_.
      await_then (call PageTitle (v_title v)) (\<lambda>title.
      steps
        [log (''Current URL:  '' @ v_url v),
         log (''Test completed for '' @ t_name ts),
         log (''Page title: '' @ title),
         (if indexOf sites ts < int (length sites) - 1
          then randomWait 3000 6000 (v_rand2 v) else ok ())])))"

fun visitAll :: "string \<Rightarrow> test_site list \<Rightarrow> (test_site \<times> visit_env) list \<Rightarrow> unit io" where
  "visitAll cwd sites [] = ok ()"
| "visitAll cwd sites (t # ts) = await_then (visitSite cwd sites t) (\<lambda>_. visitAll cwd sites ts)"

record stealth_env =
  m_create :: "error + string"
  m_connect :: "error + unit"
  m_pages :: "error + bool"
  m_newPage :: "error + unit"
  m_setViewport :: "error + unit"
  m_visits :: "visit_env list"
  m_google :: google_env
  m_close :: "error + unit"

text \<open>
  \<open>main\<close> of the stealth test.  The whole run is one \<open>try\<close> with
  \<open>browser.close()\<close> among its last statements, and the \<open>catch\<close> writes the error
  to the console.
  \<open>m_visits\<close> holds what the world does during the visit of each test site, in order.
\<close>

definition stealth_main :: "string \<Rightarrow> stealth_env \<Rightarrow> unit io" where
  "stealth_main cwd env =
     try_catch
       (steps
          [log ''Starting advanced stealth bot detection test...'',
           createBrowser (m_create env) (m_connect env),
           firstPage (m_pages env) (m_newPage env),
           call PageSetViewport (m_setViewport env),
           visitAll cwd testSites (zip testSites (m_visits env)),
           testGoogleSearch cwd (m_google env),
           call BrowserClose (m_close env),
           log ''Test completed successfully!'',
           log ''Check the screenshots directory for results.''])
       (\<lambda>error. log_error (''An error occurred: '' @ error_text error))"

section \<open>Concrete worlds\<close>

text \<open>
  A world in which every call of \<open>testLogin\<close> succeeds: the success indicator appears
  three seconds after the form was submitted and is not there yet when the page is asked
  for it at once; no failure indicator ever appears.
\<close>

definition calm :: login_env where
  "calm =
     \<lparr>sessions_create = Inr ''s1'', puppeteer_connect = Inr (), browser_pages = Inr True,
      browser_newPage = Inr (), page_setViewport = Inr (), page_goto = Inr (),
      wait_username = Appears 40, type_username = Inr (),
      wait_password = Appears 0, type_password = Inr (),
      shot_before_submit = Inr (), wait_navigation = Inr (), click_submit = Inr (),
      wait_success = Appears 3000, wait_failure = Never, query_success = Inr False,
      shot_final = Inr (), shot_error = Inr (), browser_close = Inr ()\<rparr>"

text \<open>The target of the script, given a failure indicator as well.\<close>

definition guarded :: LoginSite where
  "guarded = orangeHRM\<lparr>failureIndicator := Some ''.oxd-alert''\<rparr>"

definition page_gone :: error where
  "page_gone = OtherError ''Target closed''"

text \<open>A call of \<open>takeScreenshot\<close> that succeeds while the clock reads \<open>stamp\<close>.\<close>

definition snap :: "string \<Rightarrow> shot_env" where
  "snap stamp = \<lparr>dir_exists = True, mkdir = Inr (), now_iso = stamp, shot = Inr ()\<rparr>"

text \<open>A world in which every call of \<open>testGoogleSearch\<close> succeeds; no result link is found.\<close>

definition g_calm :: google_env where
  "g_calm =
     \<lparr>g_goto = Inr (), g_has_textarea = Inr True, g_has_input = Inr False,
      g_clear = Inr (), g_type = Inr (), g_rand1 = 0,
      g_shot_query = snap ''2025-03-01T09:00:01.250Z'',
      g_press = Inr (), g_wait_navigation = Inr (), g_wait_ready = Inr (), g_rand2 = 0,
      g_shot_results = snap ''2025-03-01T09:00:05.500Z'',
      g_h3 = Inr [Some ''Puppeteer'', None], g_has_link = Inr False,
      g_result_navigation = Inr (), g_result_click = Inr (), g_rand3 = 0,
      g_title = Inr ''Puppeteer'', g_url = ''https://pptr.dev/'',
      g_shot_page = snap ''2025-03-01T09:00:09.000Z'',
      g_scroll1 = Inr (), g_rand4 = 0, g_scroll2 = Inr (), g_rand5 = 0,
      g_goBack = Inr (), g_rand6 = 0,
      g_shot_error = snap ''2025-03-01T09:00:12.000Z''\<rparr>"

definition v_calm :: "string \<Rightarrow> visit_env" where
  "v_calm stamp =
     \<lparr>v_goto = Inr (), v_rand1 = 0, v_shot = snap stamp, v_title = Inr ''Report'',
      v_url = ''https://example.org/'', v_rand2 = 0\<rparr>"

definition m_calm :: stealth_env where
  "m_calm =
     \<lparr>m_create = Inr ''s2'', m_connect = Inr (), m_pages = Inr True, m_newPage = Inr (),
      m_setViewport = Inr (),
      m_visits = [v_calm ''2025-03-01T08:59:01.000Z'', v_calm ''2025-03-01T08:59:30.000Z''],
      m_google = g_calm, m_close = Inr ()\<rparr>"




text \<open>The calls among the effects of a run, in order.\<close>

fun calls :: "event list \<Rightarrow> op list" where
  "calls [] = []"
| "calls (Call f # es) = f # calls es"
| "calls (e # es) = calls es"


section \<open>Facts about the combinators\<close>

lemma fst_await_then:
  "fst (await_then m f) = (case fst m of Inl e \<Rightarrow> Inl e | Inr x \<Rightarrow> fst (f x))"
  by (simp add: await_then_def split: sum.splits)

lemma snd_await_then:
  "snd (await_then m f) = snd m @ (case fst m of Inl e \<Rightarrow> [] | Inr x \<Rightarrow> snd (f x))"
  by (simp add: await_then_def split: sum.splits)

lemma fst_try_catch:
  "fst (try_catch m h) = (case fst m of Inl e \<Rightarrow> fst (h e) | Inr x \<Rightarrow> Inr x)"
  by (simp add: try_catch_def split: sum.splits)

lemma snd_try_catch:
  "snd (try_catch m h) = snd m @ (case fst m of Inl e \<Rightarrow> snd (h e) | Inr x \<Rightarrow> [])"
  by (simp add: try_catch_def split: sum.splits)


lemma snd_try_finally: "snd (try_finally m f) = snd m @ snd f"
  by (simp add: try_finally_def split: sum.splits)

lemma fst_steps_Cons:
  "fst (steps (m # ms)) = (case fst m of Inl e \<Rightarrow> Inl e | Inr u \<Rightarrow> fst (steps ms))"
  by (simp add: fst_await_then)

lemma snd_steps_Cons:
  "snd (steps (m # ms)) = snd m @ (case fst m of Inl e \<Rightarrow> [] | Inr u \<Rightarrow> snd (steps ms))"
  by (simp add: snd_await_then)


lemma calls_append: "calls (xs @ ys) = calls xs @ calls ys"
  by (induction xs rule: calls.induct) simp_all



lemma calls_screenshot: "calls (snd (screenshot p r)) = [PageScreenshot p]"
  by (simp add: screenshot_def split: sum.splits)

lemmas io_simps = ok_def throw_def log_def log_error_def call_def await_def

lemmas login_defs =
  testLogin_def openSession_def loginAttempt_def loginFailed_def fillAndSubmit_def submitForm_def
  checkLoginResult_def login_race_def closeBrowser_def firstPage_def screenshot_def
  screenshotPath_of_def before_submit_path_def screenshotsDir_def path_join_def
  promise_race2_def promise_then_def promise_resolve_def promise_all2_def promise_catch_def
  waitForSelector_def timeout_error_def default_timeout_def
  try_catch_def try_finally_def await_then_def

lemmas google_defs =
  testGoogleSearch_def googleSearch_def submitSearch_def findSearchInput_def openFirstResult_def
  takeScreenshot_def ensureDirectoryExists_def shot_filePath_def timestamp_of_def dash_char_def
  isAbsolute_def searchQuery_def randomWait_def waitTime_def show_int_def screenshot_def
  path_join_def promise_all2_def promise_catch_def try_catch_def await_then_def Let_def


lemma show_nat_10000: "show_nat 10000 = ''10000''"
  by (simp add: show_nat.simps digit_char_def)

section \<open>The pacing delay\<close>






section \<open>The race of the two indicators\<close>

text \<open>
  A wait is still pending after \<open>t\<close> milliseconds, \<open>t\<close> below its timeout, exactly
  when the element has not appeared and the driver's call has not broken by then.
\<close>

lemma settles_later:
  assumes "t < ms"
  shows "earlier (After t) (fst (waitForSelector sel ms sg)) =
           (case sg of Appears u \<Rightarrow> t < u | Never \<Rightarrow> True | Breaks u e \<Rightarrow> t < u)"
  using assms by (simp add: waitForSelector_def split: signal.splits)



text \<open>
  Without a failure indicator the second operand of the race is a promise that is settled
  already, so the race yields \<open>null\<close> at once, whatever the wait for the success
  indicator comes to: the verdict is the one of the immediate existence check.
\<close>

lemma checkLoginResult_without_failureIndicator:
  assumes "failureIndicator s = None"
  shows "checkLoginResult s env =
    (case query_success env of
       Inl e \<Rightarrow>
         (Inr (False, ''Error checking login status: '' @ error_text e),
          [Call (PageWaitForSelector (successIndicator s) 10000),
           Call (PageQuery (successIndicator s))])
     | Inr found \<Rightarrow>
         (Inr (found, if found then ''Login appears successful''
                      else ''Login status unclear - could not find success indicator''),
          [Call (PageWaitForSelector (successIndicator s) 10000),
           Call (PageQuery (successIndicator s))]))"
  using assms
  by (cases "wait_success env"; cases "query_success env")
     (simp_all add: checkLoginResult_def login_race_def promise_race2_def promise_then_def
       promise_resolve_def waitForSelector_def try_catch_def await_then_def io_simps)

text \<open>
  With a failure indicator, when both waits run into their timeout the race rejects with
  the timeout error of the first one, and the inner \<open>catch\<close> makes the message from it.
\<close>

lemma checkLoginResult_both_time_out:
  assumes "failureIndicator s = Some f"
    and "fst (waitForSelector (successIndicator s) 10000 (wait_success env)) = After 10000"
    and "fst (waitForSelector f 10000 (wait_failure env)) = After 10000"
  shows "checkLoginResult s env =
    (Inr (False, ''Error checking login status: '' @
                 error_text (timeout_error (successIndicator s) 10000)),
     [Call (PageWaitForSelector (successIndicator s) 10000),
      Call (PageWaitForSelector f 10000)])"
  using assms
  by (cases "wait_success env"; cases "wait_failure env")
     (auto simp add: checkLoginResult_def login_race_def promise_race2_def promise_then_def
       waitForSelector_def try_catch_def await_then_def io_simps split: if_splits)

text \<open>
  Claim C1, on the code.  The target has a failure indicator and neither indicator ever
  appears; the success indicator would be found by an existence check.  The race rejects
  after the ten seconds, the page is not asked, and the message is the one of the inner
  \<open>catch\<close>, neither \<open>Login appears successful\<close> nor \<open>Login status unclear\<close>.
\<close>

theorem timeout_goes_to_catch:
  "checkLoginResult guarded (calm\<lparr>wait_success := Never, query_success := Inr True\<rparr>) =
     (Inr (False,
        ''Error checking login status: TimeoutError: Waiting for selector .oxd-userdropdown failed: 10000ms exceeded''),
      [Call (PageWaitForSelector ''.oxd-userdropdown'' 10000),
       Call (PageWaitForSelector ''.oxd-alert'' 10000)]) \<and>
   checkLoginResult guarded (calm\<lparr>wait_success := Never\<rparr>) =
     (Inr (False,
        ''Error checking login status: TimeoutError: Waiting for selector .oxd-userdropdown failed: 10000ms exceeded''),
      [Call (PageWaitForSelector ''.oxd-userdropdown'' 10000),
       Call (PageWaitForSelector ''.oxd-alert'' 10000)])"
  by (simp add: login_defs io_simps guarded_def orangeHRM_def calm_def show_nat_10000)

text \<open>
  Claim C2, on the code.  The target of the script has no failure indicator; its success
  indicator appears three seconds after the form was submitted.  The verdict does not wait
  for it: the page is asked at once, finds nothing, and the login is reported as unclear.
\<close>

theorem missing_failure_indicator_skips_wait:
  "failureIndicator orangeHRM = None \<and> wait_success calm = Appears 3000 \<and>
   checkLoginResult orangeHRM calm =
     (Inr (False, ''Login status unclear - could not find success indicator''),
      [Call (PageWaitForSelector ''.oxd-userdropdown'' 10000),
       Call (PageQuery ''.oxd-userdropdown'')])"
  by (simp add: login_defs io_simps orangeHRM_def calm_def)

section \<open>Releasing the session\<close>

lemma calls_await_wait:
  "calls (snd (await (waitForSelector sel ms sg))) = [PageWaitForSelector sel ms]"
  by (simp add: waitForSelector_def io_simps split: signal.splits)

lemma calls_submitForm:
  "calls (snd (submitForm s env)) = [PageWaitForNavigation, PageClick (submitSelector s)]"
  by (simp add: submitForm_def promise_all2_def promise_catch_def try_catch_def io_simps
      split: sum.splits)

lemma no_close_in_fillAndSubmit: "BrowserClose \<notin> set (calls (snd (fillAndSubmit cwd s env)))"
  by (auto simp add: fillAndSubmit_def snd_await_then fst_await_then calls_append
      calls_screenshot calls_await_wait calls_submitForm log_def call_def ok_def
      split: sum.splits option.splits)

lemma no_close_in_checkLoginResult: "BrowserClose \<notin> set (calls (snd (checkLoginResult s env)))"
  by (cases "wait_success env"; cases "wait_failure env"; cases "failureIndicator s";
      cases "query_success env")
     (auto simp add: checkLoginResult_def login_race_def promise_race2_def promise_then_def
       promise_resolve_def waitForSelector_def try_catch_def await_then_def io_simps)

lemma no_close_in_loginAttempt: "BrowserClose \<notin> set (calls (snd (loginAttempt cwd s env)))"
  using no_close_in_fillAndSubmit [of cwd s env] no_close_in_checkLoginResult [of s env]
  by (auto simp add: loginAttempt_def snd_await_then fst_await_then calls_append
      calls_screenshot log_def ok_def split: sum.splits prod.splits)

lemma no_close_in_loginFailed: "BrowserClose \<notin> set (calls (snd (loginFailed cwd s env e)))"
  by (simp add: loginFailed_def snd_await_then fst_await_then snd_try_catch fst_try_catch
      calls_append screenshot_def log_error_def ok_def split: sum.splits)

lemma no_close_in_openSession: "BrowserClose \<notin> set (calls (snd (openSession s env)))"
  by (auto simp add: openSession_def firstPage_def snd_await_then fst_await_then calls_append
      log_def call_def ok_def split: sum.splits)

lemma calls_closeBrowser: "calls (snd (closeBrowser env)) = [BrowserClose]"
  by (simp add: closeBrowser_def snd_await_then call_def log_def ok_def split: sum.splits)

lemma count_list_absent: "x \<notin> set xs \<Longrightarrow> count_list xs x = 0"
  by (induction xs) auto

text \<open>
  Once the statements before the \<open>try\<close> have succeeded, \<open>browser.close()\<close> is called
  exactly once, whatever happens inside the \<open>try\<close>; when one of them throws,
  \<open>testLogin\<close> throws that error and \<open>browser.close()\<close> is never called.
\<close>

lemma close_count:
  "count_list (calls (snd (testLogin cwd s env))) BrowserClose =
     (case fst (openSession s env) of Inl e \<Rightarrow> 0 | Inr u \<Rightarrow> 1)"
  using no_close_in_openSession [of s env] no_close_in_loginAttempt [of cwd s env]
    no_close_in_loginFailed [of cwd s env]
  by (auto simp add: testLogin_def snd_await_then snd_try_finally snd_try_catch calls_append
      calls_closeBrowser count_list_absent split: sum.splits)

lemma testLogin_throws_setup_error:
  assumes "fst (openSession s env) = Inl e"
  shows "testLogin cwd s env = (Inl e, snd (openSession s env))"
  using assms by (simp add: testLogin_def await_then_def)

text \<open>
  Claim C4, on the code.  The viewport call fails after the session was created and the
  browser connected: \<open>testLogin\<close> throws that error, and \<open>browser.close()\<close> is not
  among the calls it made.  In the stealth script a navigation that fails ends \<open>main\<close>
  in its \<open>catch\<close>, and \<open>browser.close()\<close> is not among its calls either.
\<close>

theorem setup_failure_leaves_session_open:
  "fst (testLogin ''/app'' orangeHRM (calm\<lparr>page_setViewport := Inl page_gone\<rparr>)) = Inl page_gone \<and>
   calls (snd (testLogin ''/app'' orangeHRM (calm\<lparr>page_setViewport := Inl page_gone\<rparr>))) =
     [SessionsCreate, PuppeteerConnect, BrowserPages, PageSetViewport] \<and>
   calls (snd (stealth_main ''/app''
     (m_calm\<lparr>m_visits := [(v_calm ''2025-03-01T08:59:01.000Z'')\<lparr>v_goto := Inl page_gone\<rparr>,
                           v_calm ''2025-03-01T08:59:30.000Z'']\<rparr>))) =
     [SessionsCreate, PuppeteerConnect, BrowserPages, PageSetViewport,
      PageGoto ''https://bot.sannysoft.com'']"
  by (simp add: login_defs io_simps orangeHRM_def calm_def
      stealth_main_def createBrowser_def visitSite_def testSites_def m_calm_def v_calm_def
      page_gone_def)

section \<open>The path of the final screenshot\<close>


















section \<open>A failing screenshot on the error path\<close>

text \<open>
  Claim C6, on the code.  In \<open>testGoogleSearch\<close> the first navigation fails and, in the
  \<open>catch\<close>, the screenshot fails as well because the page is gone.  The function
  throws the error of the screenshot; the error it had caught is only on the console.
\<close>

theorem error_screenshot_failure_escapes:
  "testGoogleSearch ''/app''
     (g_calm\<lparr>g_goto := Inl (OtherError ''net::ERR_NAME_NOT_RESOLVED''),
             g_shot_error := (snap ''2025-03-01T09:00:12.000Z'')\<lparr>shot := Inl page_gone\<rparr>\<rparr>) =
     (Inl page_gone,
      [Log ''Starting detailed Google search test...'',
       Call (PageGoto ''https://www.google.com''),
       LogError ''Google search test failed: net::ERR_NAME_NOT_RESOLVED'',
       Call (ExistsSync ''/app/screenshots''),
       Call (PageScreenshot ''screenshots/google-search-error-2025-03-01T09-00-12-000Z.png'')])"
  by (simp add: google_defs io_simps g_calm_def snap_def page_gone_def)

text \<open>
  The \<open>catch\<close> of \<open>testLogin\<close> guards its screenshot: it always returns the result made
  from the error it caught, whatever the screenshot call comes to.
\<close>

lemma loginFailed_never_throws:
  "fst (loginFailed cwd s env e) =
     Inr \<lparr>site = name s, success = False, message = ''Error testing login: '' @ error_text e,
          screenshotPath = screenshotPath_of cwd s\<rparr> \<and>
   (shot_error env = Inl e' \<longrightarrow>
      LogError ''Failed to take error screenshot'' \<in> set (snd (loginFailed cwd s env e)))"
  by (simp add: loginFailed_def fst_await_then fst_try_catch snd_await_then snd_try_catch
      io_simps screenshot_def split: sum.splits)

section \<open>The wait for the navigation after a submit\<close>

lemma submitForm_eq:
  "submitForm s env =
     (click_submit env, [Call PageWaitForNavigation, Call (PageClick (submitSelector s))])"
  by (cases "wait_navigation env"; cases "click_submit env")
     (simp_all add: submitForm_def promise_all2_def promise_catch_def try_catch_def io_simps)

lemma submitForm_ignores_navigation:
  "submitForm s (env\<lparr>wait_navigation := r\<rparr>) = submitForm s env"
  by (simp add: submitForm_eq)

lemma fillAndSubmit_ignores_navigation:
  "fillAndSubmit cwd s (env\<lparr>wait_navigation := r\<rparr>) = fillAndSubmit cwd s env"
  by (simp add: fillAndSubmit_def submitForm_ignores_navigation)

lemma checkLoginResult_ignores_navigation:
  "checkLoginResult s (env\<lparr>wait_navigation := r\<rparr>) = checkLoginResult s env"
  by (simp add: checkLoginResult_def login_race_def cong: option.case_cong)

lemma loginAttempt_ignores_navigation:
  "loginAttempt cwd s (env\<lparr>wait_navigation := r\<rparr>) = loginAttempt cwd s env"
  by (simp add: loginAttempt_def fillAndSubmit_ignores_navigation
      checkLoginResult_ignores_navigation cong: prod.case_cong)

lemma loginFailed_ignores_navigation:
  "loginFailed cwd s (env\<lparr>wait_navigation := r\<rparr>) = loginFailed cwd s env"
  by (rule ext) (simp add: loginFailed_def)

lemma closeBrowser_ignores_navigation:
  "closeBrowser (env\<lparr>wait_navigation := r\<rparr>) = closeBrowser env"
  by (simp add: closeBrowser_def)

lemma openSession_ignores_navigation:
  "openSession s (env\<lparr>wait_navigation := r\<rparr>) = openSession s env"
  by (simp add: openSession_def)

lemma testLogin_ignores_navigation:
  "testLogin cwd s (env\<lparr>wait_navigation := r\<rparr>) = testLogin cwd s env"
  unfolding testLogin_def loginAttempt_ignores_navigation loginFailed_ignores_navigation
    closeBrowser_ignores_navigation openSession_ignores_navigation
  by (rule refl)

lemma fst_submitSearch: "fst (submitSearch g) = g_press g"
  by (cases "g_press g"; cases "g_wait_navigation g")
     (simp_all add: submitSearch_def promise_catch_def try_catch_def await_then_def io_simps)

lemma calls_submitSearch:
  "calls (snd (submitSearch g)) =
     (case g_press g of Inl e \<Rightarrow> [KeyboardPress ''Enter'']
      | Inr u \<Rightarrow> [KeyboardPress ''Enter'', PageWaitForNavigation])"
  by (cases "g_press g"; cases "g_wait_navigation g")
     (simp_all add: submitSearch_def promise_catch_def try_catch_def await_then_def io_simps)

lemma submitSearch_nav_fst:
  "fst (submitSearch (g\<lparr>g_wait_navigation := r\<rparr>)) = fst (submitSearch g)"
  by (simp add: fst_submitSearch)

lemma fst_googleSearch_ignores_navigation:
  "fst (googleSearch cwd (g\<lparr>g_wait_navigation := r\<rparr>)) = fst (googleSearch cwd g)"
  by (simp add: googleSearch_def fst_await_then fst_steps_Cons fst_submitSearch
      findSearchInput_def openFirstResult_def cong: sum.case_cong if_cong)

lemma fst_testGoogleSearch_ignores_navigation:
  "fst (testGoogleSearch cwd (g\<lparr>g_wait_navigation := r\<rparr>)) = fst (testGoogleSearch cwd g)"
  by (simp add: testGoogleSearch_def fst_await_then fst_try_catch
      fst_googleSearch_ignores_navigation cong: sum.case_cong)

text \<open>
  Claim C8, as amended.  In \<open>testLogin\<close> the wait for the navigation is started, then
  the click is issued, and both are awaited together; the step comes to what the click
  comes to, and the whole run of \<open>testLogin\<close> is the same whatever the wait for the
  navigation comes to.  In \<open>testGoogleSearch\<close> submitting the query comes to what the
  key press comes to, and what the function returns or throws does not depend on the wait
  for the navigation.
\<close>

theorem navigation_wait_is_swallowed:
  "submitForm s env =
     (click_submit env, [Call PageWaitForNavigation, Call (PageClick (submitSelector s))]) \<and>
   fillAndSubmit cwd s (env\<lparr>wait_navigation := r\<rparr>) = fillAndSubmit cwd s env \<and>
   testLogin cwd s (env\<lparr>wait_navigation := r\<rparr>) = testLogin cwd s env \<and>
   fst (submitSearch g) = g_press g \<and>
   fst (testGoogleSearch cwd (g\<lparr>g_wait_navigation := r\<rparr>)) = fst (testGoogleSearch cwd g)"
  by (simp add: submitForm_eq fillAndSubmit_ignores_navigation testLogin_ignores_navigation
      fst_submitSearch fst_testGoogleSearch_ignores_navigation)

text \<open>
  The theorem in a world where the page does not navigate after the click: the wait for
  the navigation times out, and the run is the one of the world where it succeeds.
\<close>

theorem navigation_wait_is_swallowed_witness:
  "testLogin ''/app'' orangeHRM
     (calm\<lparr>wait_navigation := Inl (TimeoutError ''Navigation timeout of 30000 ms exceeded'')\<rparr>) =
     testLogin ''/app'' orangeHRM calm \<and>
   fst (submitForm orangeHRM
     (calm\<lparr>wait_navigation := Inl (TimeoutError ''Navigation timeout of 30000 ms exceeded'')\<rparr>)) =
     Inr ()"
  using navigation_wait_is_swallowed [of orangeHRM
      "calm\<lparr>wait_navigation := Inl (TimeoutError ''Navigation timeout of 30000 ms exceeded'')\<rparr>"
      "''/app''" "wait_navigation calm" g_calm]
  by (simp add: calm_def)

text \<open>
  Claim C8 as stated fails for the search: the key press is awaited before the wait for
  the navigation is started.  The console line written after the key press precedes the
  call of the wait, and when the key press fails the wait is never started.
\<close>

theorem search_submit_is_sequential:
  "snd (submitSearch g_calm) =
     [Log ''Pressing Enter to search...'', Call (KeyboardPress ''Enter''),
      Log ''Waiting for search results...'', Call PageWaitForNavigation] \<and>
   calls (snd (submitSearch (g_calm\<lparr>g_press := Inl page_gone\<rparr>))) = [KeyboardPress ''Enter''] \<and>
   PageWaitForNavigation \<notin>
     set (calls (snd (testGoogleSearch ''/app'' (g_calm\<lparr>g_press := Inl page_gone\<rparr>)))) \<and>
   calls (snd (submitForm orangeHRM (calm\<lparr>click_submit := Inl page_gone\<rparr>))) =
     [PageWaitForNavigation, PageClick (submitSelector orangeHRM)]"
  by (simp add: google_defs io_simps g_calm_def snap_def page_gone_def show_nat.simps
      digit_char_def submitForm_eq)

section \<open>The loop over the targets\<close>











section \<open>The file names of the screenshots\<close>








end
